theory Spec2Isabelle
  imports Complex_Main "HOL-Library.Sublist" "HOL-Library.Log_Nat"
begin

section \<open>Data model\<close>

text \<open>
  The trading bot of \<^verbatim>\<open>freqtrade/analyze.py\<close> and \<^verbatim>\<open>freqtrade/freqtradebot.py\<close>.
  Prices, amounts, fees and profit fractions are Python floats in the source, that is
  binary64 numbers. A finite binary64 number is a rational, and the model computes with
  rationals: every arithmetic operation of the source on floats is the exact operation
  followed by the rounding \<open>fl\<close> to the nearest binary64 number (section "Floating
  point"). A \<^verbatim>\<open>datetime\<close> is the number of seconds that its \<^verbatim>\<open>timestamp()\<close> returns.
\<close>

datatype error =
  ValueError | OperationalException | IndexError | ZeroDivisionError | AttributeError


section \<open>Floating point\<close>

text \<open>
  Rounding to the nearest integer, a tie to the even one.
\<close>

definition round_half_even :: "rat \<Rightarrow> int" where
  "round_half_even y =
     (if y - of_int \<lfloor>y\<rfloor> < 1 / 2 then \<lfloor>y\<rfloor>
      else if 1 / 2 < y - of_int \<lfloor>y\<rfloor> then \<lfloor>y\<rfloor> + 1
      else if even \<lfloor>y\<rfloor> then \<lfloor>y\<rfloor> else \<lfloor>y\<rfloor> + 1)"

text \<open>
  The binary exponent of a positive rational \<open>x\<close>, the \<open>k\<close> with \<open>2\<^sup>k \<le> x < 2\<^sup>k\<^sup>+\<^sup>1\<close>, from the
  bit lengths of its numerator and denominator.
\<close>

definition floor_log2 :: "rat \<Rightarrow> int" where
  "floor_log2 x =
     (let k = bitlen (fst (quotient_of x)) - bitlen (snd (quotient_of x))
      in if 2 powi k \<le> x then k else k - 1)"

text \<open>
  The spacing of the binary64 numbers around \<open>x\<close>: 53 significant bits, and \<open>2\<^sup>-\<^sup>1\<^sup>0\<^sup>7\<^sup>4\<close> in the
  subnormal range.
\<close>

definition ulp :: "rat \<Rightarrow> rat" where
  "ulp x = 2 powi (max (- 1074) (floor_log2 \<bar>x\<bar> - 52))"

text \<open>
  The binary64 number nearest to \<open>x\<close>, a tie to the one with the even significand (IEEE 754
  round-to-nearest-even, Python's float arithmetic). A result beyond the largest binary64
  number, which Python turns into \<^verbatim>\<open>inf\<close>, is not modelled: \<open>fl\<close> rounds it like any
  other.
\<close>

definition fl :: "rat \<Rightarrow> rat" where
  "fl x = (if x = 0 then 0 else of_int (round_half_even (x / ulp x)) * ulp x)"

text \<open>Python's \<^verbatim>\<open>+\<close>, \<^verbatim>\<open>-\<close>, \<^verbatim>\<open>*\<close> and \<^verbatim>\<open>/\<close> on floats (and on a float and an int).\<close>

definition fadd :: "rat \<Rightarrow> rat \<Rightarrow> rat" where
  "fadd a b = fl (a + b)"

definition fsub :: "rat \<Rightarrow> rat \<Rightarrow> rat" where
  "fsub a b = fl (a - b)"

definition fmul :: "rat \<Rightarrow> rat \<Rightarrow> rat" where
  "fmul a b = fl (a * b)"

definition fdiv :: "rat \<Rightarrow> rat \<Rightarrow> rat" where
  "fdiv a b = fl (a / b)"




text \<open>
  The \<^verbatim>\<open>Trade\<close> row of the persistence layer, with the columns that the two modules
  read or write. \<open>None\<close> is Python's \<^verbatim>\<open>None\<close>.
\<close>

record trade =
  trade_id :: nat
  bot_id :: int
  pair :: string
  is_open :: bool
  open_rate :: rat
  open_date :: rat
  amount :: rat
  stake_amount :: rat
  fee_open :: rat
  stop_loss :: "rat option"
  initial_stop_loss :: "rat option"
  open_order_id :: "string option"
  close_rate_requested :: "rat option"

text \<open>
  The strategy object: \<^verbatim>\<open>stoploss\<close> may be \<^verbatim>\<open>None\<close> (the source tests for it), and
  \<^verbatim>\<open>minimal_roi\<close> is a dict whose \<^verbatim>\<open>items()\<close> come in insertion order: an association
  list of (duration in minutes, required profit).
\<close>

record strategy =
  stoploss :: "rat option"
  minimal_roi :: "(rat \<times> rat) list"

text \<open>
  \<^verbatim>\<open>config['trailing_stop']\<close> is either a plain truth value or a dict (an association list
  of its keys); \<open>None\<close> in the configuration record below is the absent key.
\<close>

datatype trailing = TrailingFlag bool | TrailingDict "(string \<times> rat) list"

record ask_strategy =
  ask_use_book_order :: bool
  book_order_min :: int
  book_order_max :: int

text \<open>
  The configuration dict. The fields read with \<^verbatim>\<open>.get(key, default)\<close> hold the value
  after the default has been applied; the flags hold the truth value of the entry.
\<close>

record config =
  trailing_stop :: "trailing option"
  sell_profit_only :: bool
  use_sell_signal :: bool
  sell_fullfilled_at_roi :: bool
  ask_strategy :: "ask_strategy option"
  ask_last_balance :: rat
  bid_use_book_order :: bool
  book_order_top :: int
  percent_from_top :: rat
  cfg_stake_amount :: rat
  max_open_trades :: int
  cfg_bot_id :: int

text \<open>
  The methods of \<^verbatim>\<open>Trade\<close> live in \<^verbatim>\<open>freqtrade/persistence.py\<close>, which is not part of
  the sources at hand. The profit computations are parameters of the model, and so is the
  price that a stop-loss percentage yields at a given rate.
\<close>

record persistence =
  calc_profit_percent :: "trade \<Rightarrow> rat \<Rightarrow> rat"
  calc_profit :: "trade \<Rightarrow> rat option \<Rightarrow> rat"
  stop_price :: "rat \<Rightarrow> rat option \<Rightarrow> rat"


section \<open>analyze.py: the sell decision\<close>

text \<open>
  Modelled from the spec: \<^verbatim>\<open>Trade.adjust_stop_loss\<close> of \<^verbatim>\<open>freqtrade/persistence.py\<close> is
  missing. The spec says that a trade without a stop-loss gets one (and its initial
  stop-loss) from the percentage applied to the given rate, and that afterwards a new
  stop-loss "is accepted only if it is higher (more favorable) than the current one".
\<close>

definition adjust_stop_loss :: "persistence \<Rightarrow> trade \<Rightarrow> rat \<Rightarrow> rat option \<Rightarrow> trade" where
  "adjust_stop_loss P t current_price pct =
     (let new_loss = stop_price P current_price pct in
      case stop_loss t of
        None \<Rightarrow> t\<lparr>stop_loss := Some new_loss, initial_stop_loss := Some new_loss\<rparr>
      | Some cur \<Rightarrow> if new_loss > cur then t\<lparr>stop_loss := Some new_loss\<rparr> else t)"

text \<open>\<^verbatim>\<open>'trailing_stop' in self.config and self.config['trailing_stop']\<close>: a dict is true
  when it is not empty.\<close>

definition trailing_stop_on :: "config \<Rightarrow> bool" where
  "trailing_stop_on cfg =
     (case trailing_stop cfg of
        None \<Rightarrow> False
      | Some (TrailingFlag b) \<Rightarrow> b
      | Some (TrailingDict d) \<Rightarrow> d \<noteq> [])"

text \<open>\<^verbatim>\<open>isinstance(self.config['trailing_stop'], dict) and 'positive' in ...\<close>: the value
  stored under \<^verbatim>\<open>'positive'\<close>, if there is one.\<close>

definition trailing_positive :: "config \<Rightarrow> rat option" where
  "trailing_positive cfg =
     (case trailing_stop cfg of
        Some (TrailingDict d) \<Rightarrow> map_of d ''positive''
      | _ \<Rightarrow> None)"

text \<open>The loop at the end of \<^verbatim>\<open>min_roi_reached\<close> over \<^verbatim>\<open>minimal_roi.items()\<close>.\<close>

fun roi_loop :: "rat \<Rightarrow> rat \<Rightarrow> (rat \<times> rat) list \<Rightarrow> bool" where
  "roi_loop time_diff current_profit [] = False"
| "roi_loop time_diff current_profit ((duration, threshold) # rest) =
     (if time_diff \<le> duration then False
      else if current_profit > threshold then True
      else roi_loop time_diff current_profit rest)"

text \<open>\<^verbatim>\<open>trade.stop_loss >= current_rate\<close>; the stop-loss has been set by then
  (lemma \<open>adjust_stop_loss_sets\<close> below).\<close>

definition stop_loss_hit :: "trade \<Rightarrow> rat \<Rightarrow> bool" where
  "stop_loss_hit t current_rate =
     (case stop_loss t of None \<Rightarrow> False | Some s \<Rightarrow> s \<ge> current_rate)"

text \<open>The stop-loss initialisation at the head of \<^verbatim>\<open>min_roi_reached\<close>.\<close>

definition init_stop_loss :: "persistence \<Rightarrow> strategy \<Rightarrow> trade \<Rightarrow> trade" where
  "init_stop_loss P S t =
     (if stop_loss t = None then adjust_stop_loss P t (open_rate t) (stoploss S) else t)"

text \<open>The percentage that the trailing stop uses in this evaluation.\<close>

definition stop_loss_value :: "config \<Rightarrow> strategy \<Rightarrow> rat \<Rightarrow> rat option" where
  "stop_loss_value cfg S current_profit =
     (case trailing_positive cfg of
        Some v \<Rightarrow> if current_profit > 0 then Some v else stoploss S
      | None \<Rightarrow> stoploss S)"

text \<open>\<^verbatim>\<open>Analyze.min_roi_reached\<close>: the decision and the trade as the call leaves it.\<close>

definition min_roi_reached ::
  "persistence \<Rightarrow> config \<Rightarrow> strategy \<Rightarrow> trade \<Rightarrow> rat \<Rightarrow> rat \<Rightarrow> bool \<times> trade" where
  "min_roi_reached P cfg S t current_rate current_time =
     (let current_profit = calc_profit_percent P t current_rate;
          t1 = init_stop_loss P S t
      in if stoploss S \<noteq> None \<and> stop_loss_hit t1 current_rate then (True, t1)
         else
           let t2 = (if trailing_stop_on cfg
                     then adjust_stop_loss P t1 current_rate (stop_loss_value cfg S current_profit)
                     else t1);
               time_diff = fdiv (fsub current_time (open_date t)) 60
           in (roi_loop time_diff current_profit (minimal_roi S), t2))"

text \<open>\<^verbatim>\<open>Analyze.should_sell\<close>.\<close>

definition should_sell ::
  "persistence \<Rightarrow> config \<Rightarrow> strategy \<Rightarrow> trade \<Rightarrow> rat \<Rightarrow> rat \<Rightarrow> bool \<Rightarrow> bool \<Rightarrow> bool \<times> trade" where
  "should_sell P cfg S t rate date buy sell =
     (case min_roi_reached P cfg S t rate date of
        (True, t') \<Rightarrow> (True, t')
      | (False, t') \<Rightarrow>
          if sell_profit_only cfg \<and> calc_profit P t' (Some rate) \<le> 0 then (False, t')
          else if sell \<and> \<not> buy \<and> use_sell_signal cfg then (True, t')
          else (False, t'))"

text \<open>\<^verbatim>\<open>Analyze.trunc_num\<close>: \<^verbatim>\<open>math.floor(f * 10 ** n) / 10 ** n\<close>. The product is a float
  product (of \<open>f\<close> and the int \<open>10\<^sup>n\<close> converted to a float), its floor is an int, and the
  quotient of the two ints is the float nearest to it.\<close>

definition trunc_num :: "rat \<Rightarrow> nat \<Rightarrow> rat" where
  "trunc_num f n = fdiv (of_int \<lfloor>fmul f (fl (10 ^ n))\<rfloor>) (10 ^ n)"


section \<open>The ROI table\<close>

lemma roi_loop_iff:
  "roi_loop td p tbl \<longleftrightarrow>
     (\<exists>pre d th post. tbl = pre @ (d, th) # post \<and> (\<forall>e \<in> set pre. fst e < td \<and> \<not> snd e < p)
        \<and> d < td \<and> th < p)"
proof (induction tbl)
  case Nil
  then show ?case by simp
next
  case (Cons e tbl)
  obtain d0 th0 where e: "e = (d0, th0)" by (cases e)
  show ?case
  proof (cases "td \<le> d0")
    case True
    have "\<not> (\<exists>pre d th post. e # tbl = pre @ (d, th) # post
        \<and> (\<forall>e \<in> set pre. fst e < td \<and> \<not> snd e < p) \<and> d < td \<and> th < p)"
    proof
      assume "\<exists>pre d th post. e # tbl = pre @ (d, th) # post
        \<and> (\<forall>e \<in> set pre. fst e < td \<and> \<not> snd e < p) \<and> d < td \<and> th < p"
      then obtain pre d th post where h: "e # tbl = pre @ (d, th) # post"
        "\<forall>e \<in> set pre. fst e < td \<and> \<not> snd e < p" "d < td" "th < p" by blast
      show False
      proof (cases pre)
        case Nil
        with h e True show False by simp
      next
        case (Cons a pre')
        with h e True show False by auto
      qed
    qed
    with True e show ?thesis by simp
  next
    case late: False
    show ?thesis
    proof (cases "th0 < p")
      case True
      have "e # tbl = [] @ (d0, th0) # tbl" using e by simp
      with late True have "\<exists>pre d th post. e # tbl = pre @ (d, th) # post
        \<and> (\<forall>e \<in> set pre. fst e < td \<and> \<not> snd e < p) \<and> d < td \<and> th < p"
        by (metis empty_iff list.set(1) not_le)
      with late True e show ?thesis by simp
    next
      case False
      have "(\<exists>pre d th post. e # tbl = pre @ (d, th) # post
          \<and> (\<forall>e \<in> set pre. fst e < td \<and> \<not> snd e < p) \<and> d < td \<and> th < p)
        \<longleftrightarrow> (\<exists>pre d th post. tbl = pre @ (d, th) # post
          \<and> (\<forall>e \<in> set pre. fst e < td \<and> \<not> snd e < p) \<and> d < td \<and> th < p)" (is "?L \<longleftrightarrow> ?R")
      proof
        assume ?L
        then obtain pre d th post where h: "e # tbl = pre @ (d, th) # post"
          "\<forall>e \<in> set pre. fst e < td \<and> \<not> snd e < p" "d < td" "th < p" by blast
        show ?R
        proof (cases pre)
          case Nil
          with h e False show ?thesis by simp
        next
          case (Cons a pre')
          with h have "tbl = pre' @ (d, th) # post"
            "\<forall>e \<in> set pre'. fst e < td \<and> \<not> snd e < p" by auto
          with h show ?thesis by blast
        qed
      next
        assume ?R
        then obtain pre d th post where h: "tbl = pre @ (d, th) # post"
          "\<forall>e \<in> set pre. fst e < td \<and> \<not> snd e < p" "d < td" "th < p" by blast
        have "e # tbl = (e # pre) @ (d, th) # post" using h by simp
        moreover have "\<forall>x \<in> set (e # pre). fst x < td \<and> \<not> snd x < p"
          using h late False e by auto
        ultimately show ?L using h by blast
      qed
      with late False e Cons.IH show ?thesis by simp
    qed
  qed
qed

lemma min_roi_reached_fst:
  "fst (min_roi_reached P cfg S t rate now) =
     ((stoploss S \<noteq> None \<and> stop_loss_hit (init_stop_loss P S t) rate) \<or>
      roi_loop (fdiv (fsub now (open_date t)) 60) (calc_profit_percent P t rate) (minimal_roi S))"
  by (simp add: min_roi_reached_def Let_def)

text \<open>
  C1. The ROI decision walks the table in its order: an entry whose duration the elapsed
  minutes have not passed ends the walk with "no sell", otherwise an entry whose threshold
  the profit exceeds ends it with "sell", and the end of the table is "no sell". Hence the
  decision is "sell" exactly when some entry is exceeded by the profit while the elapsed
  time has passed its duration and that of every entry before it, none of which the profit
  exceeds. \<^verbatim>\<open>min_roi_reached\<close> returns this walk's answer, for the minutes since the trade
  opened and the trade's current profit, whenever the stop-loss test before it has not
  fired. With the table 0: 0.10, 30: 0.05, 60: 0.02, 45 minutes and profit 0.06 the walk
  says "sell".
\<close>

theorem roi_walk_in_table_order:
  "roi_loop td p [] = False
   \<and> roi_loop td p ((d, th) # rest) =
       (if td \<le> d then False else if p > th then True else roi_loop td p rest)
   \<and> (roi_loop td p tbl \<longleftrightarrow>
        (\<exists>pre d th post. tbl = pre @ (d, th) # post
           \<and> (\<forall>e \<in> set pre. fst e < td \<and> \<not> snd e < p) \<and> d < td \<and> th < p))
   \<and> (\<not> (stoploss S \<noteq> None \<and> stop_loss_hit (init_stop_loss P S t) rate) \<longrightarrow>
        fst (min_roi_reached P cfg S t rate now) =
          roi_loop (fdiv (fsub now (open_date t)) 60) (calc_profit_percent P t rate)
            (minimal_roi S))
   \<and> roi_loop 45 (6 / 100) [(0, 10 / 100), (30, 5 / 100), (60, 2 / 100)] = True"
proof -
  have a: "roi_loop td p tbl \<longleftrightarrow>
        (\<exists>pre d th post. tbl = pre @ (d, th) # post
           \<and> (\<forall>e \<in> set pre. fst e < td \<and> \<not> snd e < p) \<and> d < td \<and> th < p)"
    by (rule roi_loop_iff)
  have b: "\<not> (stoploss S \<noteq> None \<and> stop_loss_hit (init_stop_loss P S t) rate) \<longrightarrow>
        fst (min_roi_reached P cfg S t rate now) =
          roi_loop (fdiv (fsub now (open_date t)) 60) (calc_profit_percent P t rate)
            (minimal_roi S)"
    by (simp add: min_roi_reached_fst)
  have c: "roi_loop 45 (6 / 100) [(0, 10 / 100), (30, 5 / 100), (60, 2 / 100)] = True"
    by simp
  show ?thesis using a b c by simp
qed

text \<open>
  A sample instance of the parameters, to run the model on concrete inputs: profits without
  fees (a closed trade's at the close rate it asked for), and a stop price of the rate
  lowered by the absolute percentage.
\<close>

definition sample_persistence :: persistence where
  "sample_persistence =
     \<lparr>calc_profit_percent = (\<lambda>t r. (r - open_rate t) / open_rate t),
      calc_profit = (\<lambda>t r. case r of
                          Some x \<Rightarrow> (x - open_rate t) * amount t
                        | None \<Rightarrow> (case close_rate_requested t of
                                     Some c \<Rightarrow> (c - open_rate t) * amount t
                                   | None \<Rightarrow> 0)),
      stop_price = (\<lambda>p pct. case pct of Some v \<Rightarrow> p * (1 - \<bar>v\<bar>) | None \<Rightarrow> p)\<rparr>"

definition sample_strategy :: strategy where
  "sample_strategy =
     \<lparr>stoploss = Some (- 1 / 10),
      minimal_roi = [(0, 10 / 100), (30, 5 / 100), (60, 2 / 100)]\<rparr>"

definition sample_config :: config where
  "sample_config =
     \<lparr>trailing_stop = None, sell_profit_only = False, use_sell_signal = False,
      sell_fullfilled_at_roi = False, ask_strategy = None, ask_last_balance = 0,
      bid_use_book_order = False, book_order_top = 1, percent_from_top = 0,
      cfg_stake_amount = 1, max_open_trades = 3, cfg_bot_id = 0\<rparr>"

definition sample_trade :: trade where
  "sample_trade =
     \<lparr>trade_id = 1, bot_id = 0, pair = ''ETH/BTC'', is_open = True, open_rate = 100,
      open_date = 0, amount = 10, stake_amount = 1000, fee_open = 25 / 10000,
      stop_loss = None, initial_stop_loss = None, open_order_id = None,
      close_rate_requested = None\<rparr>"

theorem roi_walk_in_table_order_witness:
  "\<not> (stoploss sample_strategy \<noteq> None
        \<and> stop_loss_hit (init_stop_loss sample_persistence sample_strategy sample_trade) 106)
   \<and> fst (min_roi_reached sample_persistence sample_config sample_strategy sample_trade 106 2700)
       = True"
proof -
  have h: "\<not> (stoploss sample_strategy \<noteq> None
        \<and> stop_loss_hit (init_stop_loss sample_persistence sample_strategy sample_trade) 106)"
    by (simp add: sample_strategy_def sample_persistence_def sample_trade_def
        stop_loss_hit_def init_stop_loss_def adjust_stop_loss_def)
  have r: "roi_loop (fdiv (fsub 2700 (open_date sample_trade)) 60)
      (calc_profit_percent sample_persistence sample_trade 106) (minimal_roi sample_strategy)"
    by code_simp
  show ?thesis
    using h r roi_walk_in_table_order [where S = sample_strategy and P = sample_persistence
        and t = sample_trade and rate = 106 and now = 2700 and cfg = sample_config]
    by simp
qed


section \<open>The stop-loss\<close>

text \<open>
  The sell decision of one trade over successive ticks: each tick brings the current rate,
  the time and the two signals, and \<^verbatim>\<open>should_sell\<close> leaves the trade for the next one.
\<close>

fun sell_evaluations ::
  "persistence \<Rightarrow> config \<Rightarrow> strategy \<Rightarrow> trade \<Rightarrow> (rat \<times> rat \<times> bool \<times> bool) list \<Rightarrow> trade" where
  "sell_evaluations P cfg S t [] = t"
| "sell_evaluations P cfg S t ((rate, date, buy, sell) # ticks) =
     sell_evaluations P cfg S (snd (should_sell P cfg S t rate date buy sell)) ticks"

lemma adjust_stop_loss_sets: "stop_loss (adjust_stop_loss P t price pct) \<noteq> None"
  by (simp add: adjust_stop_loss_def Let_def split: option.splits)

lemma adjust_stop_loss_mono:
  assumes "stop_loss t = Some s"
  shows "stop_loss (adjust_stop_loss P t price pct) =
    Some (if stop_price P price pct > s then stop_price P price pct else s)"
  using assms by (simp add: adjust_stop_loss_def Let_def)

lemma init_stop_loss_keeps:
  assumes "stop_loss t = Some s"
  shows "init_stop_loss P S t = t"
  using assms by (simp add: init_stop_loss_def)

lemma should_sell_snd:
  "snd (should_sell P cfg S t rate date buy sell) = snd (min_roi_reached P cfg S t rate date)"
  by (simp add: should_sell_def split: prod.splits bool.splits)

lemma min_roi_reached_stop_loss:
  assumes "stop_loss t = Some s"
  shows "stop_loss (snd (min_roi_reached P cfg S t rate now)) =
    Some (if trailing_stop_on cfg \<and> \<not> (stoploss S \<noteq> None \<and> rate \<le> s)
            \<and> stop_price P rate (stop_loss_value cfg S (calc_profit_percent P t rate)) > s
          then stop_price P rate (stop_loss_value cfg S (calc_profit_percent P t rate))
          else s)"
  using assms
  by (simp add: min_roi_reached_def Let_def init_stop_loss_keeps stop_loss_hit_def
      adjust_stop_loss_mono)

lemma sell_evaluations_mono:
  assumes "stop_loss t = Some s"
  shows "\<exists>s'. stop_loss (sell_evaluations P cfg S t ticks) = Some s' \<and> s \<le> s'"
  using assms
proof (induction ticks arbitrary: t s)
  case Nil
  then show ?case by simp
next
  case (Cons tick ticks)
  obtain rate date buy sell where tick: "tick = (rate, date, buy, sell)"
    by (cases tick) auto
  let ?t = "snd (should_sell P cfg S t rate date buy sell)"
  obtain s1 where s1: "stop_loss ?t = Some s1" "s \<le> s1"
    using min_roi_reached_stop_loss [OF Cons.prems, of P cfg S rate date]
    by (simp add: should_sell_snd)
  obtain s' where "stop_loss (sell_evaluations P cfg S ?t ticks) = Some s'" "s1 \<le> s'"
    using Cons.IH [OF s1(1)] by blast
  with s1 tick show ?case by auto
qed

text \<open>
  C2. With \<^verbatim>\<open>adjust_stop_loss\<close> as the spec describes it, a stop-loss that is set never
  decreases over any sequence of sell evaluations. In one evaluation with the trailing stop
  enabled and the stop-loss not hit, the candidate is the stop price at the current rate
  (not the open rate) for the flat stoploss percentage, or for the configured
  \<^verbatim>\<open>positive\<close> percentage when the current profit is positive, and it replaces the stored
  stop-loss only if it is higher.
\<close>

theorem trailing_stop_loss_never_decreases:
  "(stop_loss t = Some s \<longrightarrow>
      (\<exists>s'. stop_loss (sell_evaluations P cfg S t ticks) = Some s' \<and> s \<le> s'))
   \<and> (stop_loss t = Some s \<and> trailing_stop_on cfg \<and> \<not> (stoploss S \<noteq> None \<and> rate \<le> s) \<longrightarrow>
        stop_loss (snd (should_sell P cfg S t rate date buy sell)) =
          Some (let pct = (case trailing_positive cfg of
                             Some v \<Rightarrow> if calc_profit_percent P t rate > 0 then Some v
                                        else stoploss S
                           | None \<Rightarrow> stoploss S);
                    candidate = stop_price P rate pct
                in if candidate > s then candidate else s))"
proof -
  have a: "stop_loss t = Some s \<longrightarrow>
      (\<exists>s'. stop_loss (sell_evaluations P cfg S t ticks) = Some s' \<and> s \<le> s')"
    using sell_evaluations_mono by blast
  have b: "stop_loss t = Some s \<and> trailing_stop_on cfg \<and> \<not> (stoploss S \<noteq> None \<and> rate \<le> s) \<longrightarrow>
        stop_loss (snd (should_sell P cfg S t rate date buy sell)) =
          Some (let pct = (case trailing_positive cfg of
                             Some v \<Rightarrow> if calc_profit_percent P t rate > 0 then Some v
                                        else stoploss S
                           | None \<Rightarrow> stoploss S);
                    candidate = stop_price P rate pct
                in if candidate > s then candidate else s)"
  proof
    assume h: "stop_loss t = Some s \<and> trailing_stop_on cfg \<and> \<not> (stoploss S \<noteq> None \<and> rate \<le> s)"
    then have "stop_loss t = Some s" by simp
    from min_roi_reached_stop_loss [OF this, of P cfg S rate date] h
    show "stop_loss (snd (should_sell P cfg S t rate date buy sell)) =
          Some (let pct = (case trailing_positive cfg of
                             Some v \<Rightarrow> if calc_profit_percent P t rate > 0 then Some v
                                        else stoploss S
                           | None \<Rightarrow> stoploss S);
                    candidate = stop_price P rate pct
                in if candidate > s then candidate else s)"
      by (simp add: should_sell_snd stop_loss_value_def Let_def)
  qed
  show ?thesis using a b by (rule conjI)
qed

text \<open>A trade whose stop-loss is set, and a configuration with a trailing stop that has a
  \<^verbatim>\<open>positive\<close> percentage of 1 percent.\<close>

definition held_trade :: trade where
  "held_trade = sample_trade\<lparr>stop_loss := Some 90, initial_stop_loss := Some 90\<rparr>"

definition trailing_config :: config where
  "trailing_config = sample_config\<lparr>trailing_stop := Some (TrailingDict [(''positive'', 1 / 100)])\<rparr>"

lemmas sample_defs =
  sample_persistence_def sample_strategy_def sample_config_def sample_trade_def
  held_trade_def trailing_config_def

lemmas sell_defs =
  should_sell_def min_roi_reached_def init_stop_loss_def adjust_stop_loss_def
  stop_loss_hit_def stop_loss_value_def trailing_positive_def trailing_stop_on_def

theorem trailing_stop_loss_never_decreases_witness:
  "stop_loss held_trade = Some 90 \<and> trailing_stop_on trailing_config
   \<and> \<not> (stoploss sample_strategy \<noteq> None \<and> (110::rat) \<le> 90)
   \<and> stop_loss (sell_evaluations sample_persistence trailing_config sample_strategy held_trade
        [(110, 60, False, False), (109, 120, False, False)]) = Some (1089 / 10)
   \<and> stop_loss (snd (should_sell sample_persistence trailing_config sample_strategy held_trade
        110 60 False False)) = Some (1089 / 10)"
  using trailing_stop_loss_never_decreases [where t = held_trade and s = 90
      and cfg = trailing_config and S = sample_strategy and P = sample_persistence
      and rate = 110 and date = 60 and buy = False and sell = False
      and ticks = "[(110, 60, False, False), (109, 120, False, False)]"]
  by (simp add: sample_defs sell_defs Let_def)

text \<open>A strategy that defines no stoploss, with an empty ROI table.\<close>

definition no_stoploss_strategy :: strategy where
  "no_stoploss_strategy = \<lparr>stoploss = None, minimal_roi = []\<rparr>"

text \<open>
  C3, as stated, fails where the strategy's \<^verbatim>\<open>stoploss\<close> is \<^verbatim>\<open>None\<close>: the test
  \<^verbatim>\<open>self.strategy.stoploss is not None and trade.stop_loss >= current_rate\<close> is then
  skipped. The open trade below stores the stop-loss 90, the rate 80 is below it, and the
  decision is "no sell".
\<close>

theorem stoploss_hit_without_strategy_stoploss:
  "is_open held_trade \<and> stop_loss held_trade = Some 90 \<and> (80::rat) \<le> 90
   \<and> fst (should_sell sample_persistence sample_config no_stoploss_strategy held_trade
        80 60 False True) = False"
  by (simp add: sample_defs sell_defs no_stoploss_strategy_def Let_def)

text \<open>
  C3, amended. When the strategy defines a stoploss and the current rate is at or below the
  trade's stored stop-loss price, \<^verbatim>\<open>should_sell\<close> answers "sell" whatever the
  configuration (\<^verbatim>\<open>sell_profit_only\<close>, \<^verbatim>\<open>use_sell_signal\<close>), the profit and the two
  signals are, and it leaves the trade as it was: the stop-loss test of
  \<^verbatim>\<open>min_roi_reached\<close> returns before the trailing stop, the ROI table, the
  profitable-only rule and the sell signal are looked at.
\<close>

theorem stoploss_hit_sells:
  assumes "stoploss S \<noteq> None" and "stop_loss t = Some s" and "rate \<le> s"
  shows "should_sell P cfg S t rate date buy sell = (True, t)"
  using assms
  by (simp add: should_sell_def min_roi_reached_def init_stop_loss_keeps stop_loss_hit_def
      Let_def)

text \<open>The profitable-only rule is on, the trade is at a loss, a buy signal is present, and
  the stop-loss still sells.\<close>

theorem stoploss_hit_sells_witness:
  "stoploss sample_strategy \<noteq> None \<and> stop_loss held_trade = Some 90 \<and> (80::rat) \<le> 90
   \<and> sell_profit_only (sample_config\<lparr>sell_profit_only := True, use_sell_signal := True\<rparr>)
   \<and> calc_profit sample_persistence held_trade (Some 80) \<le> 0
   \<and> should_sell sample_persistence (sample_config\<lparr>sell_profit_only := True, use_sell_signal := True\<rparr>)
        sample_strategy held_trade 80 60 True False = (True, held_trade)"
proof -
  have a: "stoploss sample_strategy \<noteq> None" by (simp add: sample_defs)
  have b: "stop_loss held_trade = Some 90" by (simp add: sample_defs)
  have c: "(80::rat) \<le> 90" by simp
  have d: "calc_profit sample_persistence held_trade (Some 80) \<le> 0"
    by (simp add: sample_defs)
  show ?thesis
    using a b c d stoploss_hit_sells [OF a b c, of sample_persistence
        "sample_config\<lparr>sell_profit_only := True, use_sell_signal := True\<rparr>" 60 True False]
    by simp
qed


section \<open>freqtradebot.py: the exchange and the entry price\<close>

text \<open>
  What the exchange module answers (\<^verbatim>\<open>freqtrade/exchange\<close> is not part of the sources at
  hand): tickers, order books whose levels are \<^verbatim>\<open>[price, size]\<close>, fees, the fills of an
  order, the identifier of a placed sell order. \<^verbatim>\<open>get_signal\<close> is the pair of signals that
  \<^verbatim>\<open>Analyze.get_signal\<close> derives from the exchange's ticker history.
\<close>

record ticker =
  ticker_ask :: rat
  ticker_bid :: rat
  ticker_last :: rat

record order_book =
  bids :: "(rat \<times> rat) list"
  asks :: "(rat \<times> rat) list"

text \<open>A fee dict; \<open>None\<close> is a key that the dict does not have.\<close>

record fee =
  currency :: "string option"
  cost :: "rat option"

text \<open>An order dict; \<open>order_fee = None\<close> stands for no \<^verbatim>\<open>'fee'\<close> key or a false value
  under it (\<^verbatim>\<open>None\<close>, an empty dict).\<close>

record order =
  order_status :: string
  order_side :: string
  order_amount :: rat
  order_remaining :: rat
  order_fee :: "fee option"

text \<open>What a fill of \<^verbatim>\<open>get_trades_for_order\<close> has for a fee: no \<^verbatim>\<open>'fee'\<close> key, the value
  \<^verbatim>\<open>None\<close> under it, or a fee dict.\<close>

datatype fee_entry = FeeAbsent | FeeNone | FeeDict fee

record fill =
  fill_amount :: rat
  fill_fee :: fee_entry

record exchange =
  get_ticker :: "string \<Rightarrow> ticker"
  get_order_book :: "string \<Rightarrow> int \<Rightarrow> order_book"
  get_fee :: "string \<Rightarrow> rat"
  get_trades_for_order :: "string option \<Rightarrow> string \<Rightarrow> rat \<Rightarrow> fill list"
  get_signal :: "string \<Rightarrow> bool \<times> bool"
  exchange_sell :: "string \<Rightarrow> rat \<Rightarrow> rat \<Rightarrow> string"

text \<open>Python's \<^verbatim>\<open>xs[i]\<close>: a negative index counts from the end, an index out of range
  raises \<^verbatim>\<open>IndexError\<close>.\<close>

definition py_index :: "'a list \<Rightarrow> int \<Rightarrow> error + 'a" where
  "py_index xs i =
     (if 0 \<le> i \<and> i < int (length xs) then Inr (xs ! nat i)
      else if i < 0 \<and> - int (length xs) \<le> i then Inr (xs ! nat (int (length xs) + i))
      else Inl IndexError)"

text \<open>\<^verbatim>\<open>FreqtradeBot.get_target_bid\<close>. The three assignments to \<^verbatim>\<open>used_rate\<close> of the
  order-book branch are kept in the source's order; \<open>fl (1 / 10 ^ 8)\<close> is the float literal
  \<^verbatim>\<open>0.00000001\<close>.\<close>

definition get_target_bid :: "exchange \<Rightarrow> config \<Rightarrow> string \<Rightarrow> error + rat" where
  "get_target_bid X cfg p =
     (let ticker = get_ticker X p;
          ticker_rate =
            (if ticker_ask ticker < ticker_last ticker then ticker_ask ticker
             else fadd (ticker_ask ticker)
                    (fmul (ask_last_balance cfg) (fsub (ticker_last ticker) (ticker_ask ticker))));
          used_rate0 = ticker_rate
      in case (if bid_use_book_order cfg then
                 (let orderBook_top = book_order_top cfg;
                      orderBook = get_order_book X p orderBook_top
                  in case py_index (bids orderBook) (orderBook_top - 1) of
                       Inl e \<Rightarrow> Inl e
                     | Inr level \<Rightarrow>
                         (let orderBook_rate = fadd (fst level) (fl (1 / 10 ^ 8));
                              used_rate1 =
                                (if ticker_rate < orderBook_rate then ticker_rate else used_rate0);
                              used_rate2 = orderBook_rate
                          in Inr used_rate2))
               else Inr ticker_rate) of
           Inl e \<Rightarrow> Inl e
         | Inr used_rate \<Rightarrow>
             Inr (if percent_from_top cfg > 0
                  then trunc_num (fsub used_rate (fmul used_rate (percent_from_top cfg))) 8
                  else used_rate))"

text \<open>The bid that the comment and the log message of the order-book branch describe: "if
  ticker has lower rate, then use ticker", that is the lower of the two rates.\<close>

definition conservative_bid :: "rat \<Rightarrow> rat \<Rightarrow> rat" where
  "conservative_bid ticker_rate orderBook_rate =
     (if ticker_rate < orderBook_rate then ticker_rate else orderBook_rate)"

definition sample_exchange :: exchange where
  "sample_exchange =
     \<lparr>get_ticker = (\<lambda>p. \<lparr>ticker_ask = 1, ticker_bid = 100, ticker_last = 2\<rparr>),
      get_order_book = (\<lambda>p depth. \<lparr>bids = [(5, 1)], asks = [(101, 1)]\<rparr>),
      get_fee = (\<lambda>p. fl (1 / 1000)),
      get_trades_for_order = (\<lambda>oid p since. []),
      get_signal = (\<lambda>p. (False, False)),
      exchange_sell = (\<lambda>p limit a. ''order-1'')\<rparr>"

text \<open>
  C4 does not hold of the code. With order-book pricing on, the ticker gives ask 1 below
  last 2, so the ticker rate is 1; the first bid level is 5, so the order-book rate is
  the float 5.00000001. The ticker rate is the lower one, yet \<^verbatim>\<open>get_target_bid\<close> returns
  the order-book rate: the assignment \<^verbatim>\<open>used_rate = orderBook_rate\<close> after the \<^verbatim>\<open>if\<close>
  overwrites the ticker rate that the \<^verbatim>\<open>if\<close> has just chosen.
\<close>

theorem target_bid_ignores_lower_ticker_rate:
  "get_target_bid sample_exchange (sample_config\<lparr>bid_use_book_order := True\<rparr>) ''ETH/BTC''
     = Inr (fl (5 + 1 / 10 ^ 8))
   \<and> 1 < fl (5 + 1 / 10 ^ 8)
   \<and> conservative_bid 1 (fl (5 + 1 / 10 ^ 8)) = 1"
  by code_simp


section \<open>freqtradebot.py: the high-risk stake\<close>






definition current_trades :: "config \<Rightarrow> trade list \<Rightarrow> int" where
  "current_trades cfg session =
     int (length (filter (\<lambda>t. bot_id t = cfg_bot_id cfg \<and> is_open t) session))"








lemma current_trades_nonneg: "0 \<le> current_trades cfg session"
  by (simp add: current_trades_def)




definition closed_trade :: trade where
  "closed_trade = sample_trade\<lparr>trade_id := 2, is_open := False, open_rate := 1, amount := 1,
     close_rate_requested := Some (1031 / 1000)\<rparr>"








section \<open>freqtradebot.py: the real amount of a filled order\<close>

text \<open>
  The test on a fee dict \<^verbatim>\<open>d\<close> in \<^verbatim>\<open>get_real_amount\<close>,
  \<^verbatim>\<open>d.keys() >= {'currency', 'cost'}\<close> and then \<^verbatim>\<open>trade.pair.startswith(d['currency'])\<close>:
  the cost, when both keys are there and the pair starts with the fee's currency.
\<close>

definition base_currency_cost :: "string \<Rightarrow> fee \<Rightarrow> rat option" where
  "base_currency_cost p d =
     (case (currency d, cost d) of
        (Some c, Some k) \<Rightarrow> if prefix c p then Some k else None
      | _ \<Rightarrow> None)"

text \<open>The loop of \<^verbatim>\<open>get_real_amount\<close> over the fills, with its two accumulators
  \<^verbatim>\<open>amount\<close> and \<^verbatim>\<open>fee_abs\<close>, both added to in float arithmetic. On a fill whose
  \<^verbatim>\<open>'fee'\<close> is \<^verbatim>\<open>None\<close> the call \<^verbatim>\<open>exectrade['fee'].keys()\<close> raises \<^verbatim>\<open>AttributeError\<close>.\<close>

fun fills_loop :: "string \<Rightarrow> fill list \<Rightarrow> rat \<Rightarrow> rat \<Rightarrow> error + rat \<times> rat" where
  "fills_loop p [] amount_sum fee_abs = Inr (amount_sum, fee_abs)"
| "fills_loop p (exectrade # rest) amount_sum fee_abs =
     (case fill_fee exectrade of
        FeeAbsent \<Rightarrow> fills_loop p rest (fadd amount_sum (fill_amount exectrade)) fee_abs
      | FeeNone \<Rightarrow> Inl AttributeError
      | FeeDict d \<Rightarrow>
          (case base_currency_cost p d of
             None \<Rightarrow> fills_loop p rest (fadd amount_sum (fill_amount exectrade)) fee_abs
           | Some k \<Rightarrow>
               fills_loop p rest (fadd amount_sum (fill_amount exectrade)) (fadd fee_abs k)))"

text \<open>\<^verbatim>\<open>FreqtradeBot.get_real_amount\<close>.\<close>

definition get_real_amount :: "exchange \<Rightarrow> trade \<Rightarrow> order \<Rightarrow> error + rat" where
  "get_real_amount X t ord =
     (if fee_open t = 0 \<or> order_status ord = ''open'' then Inr (order_amount ord)
      else case (case order_fee ord of None \<Rightarrow> None | Some d \<Rightarrow> base_currency_cost (pair t) d) of
             Some k \<Rightarrow> Inr (fsub (order_amount ord) k)
           | None \<Rightarrow>
               (let trades = get_trades_for_order X (open_order_id t) (pair t) (open_date t)
                in if length trades = 0 then Inr (order_amount ord)
                   else (case fills_loop (pair t) trades 0 0 of
                           Inl e \<Rightarrow> Inl e
                         | Inr totals \<Rightarrow>
                             if fst totals \<noteq> order_amount ord then Inl OperationalException
                             else Inr (fsub (fst totals) (snd totals)))))"





text \<open>A closed order for 10 units whose fee of 0.01 is in the pair's base currency, and one
  without fee data.\<close>

definition fee_order :: order where
  "fee_order =
     \<lparr>order_status = ''closed'', order_side = ''buy'', order_amount = 10, order_remaining = 0,
      order_fee = Some \<lparr>currency = Some ''ETH'', cost = Some (fl (1 / 100))\<rparr>\<rparr>"


text \<open>
  C5. For a trade whose \<^verbatim>\<open>fee_open\<close> is not zero and an order that is not open and
  carries a fee with both keys whose currency the pair starts with, the real amount is the
  order's amount minus the fee's cost (the float difference); for the amount 10 and the
  cost 0.01 it is the float 9.99.
\<close>

theorem real_amount_from_order_fee:
  "(fee_open t \<noteq> 0 \<and> order_status ord \<noteq> ''open'' \<and> order_fee ord = Some d
      \<and> currency d = Some c \<and> cost d = Some k \<and> prefix c (pair t)
    \<longrightarrow> get_real_amount X t ord = Inr (fsub (order_amount ord) k))
   \<and> get_real_amount X sample_trade fee_order = Inr (fl (999 / 100))"
proof -
  have a: "fee_open t \<noteq> 0 \<and> order_status ord \<noteq> ''open'' \<and> order_fee ord = Some d
      \<and> currency d = Some c \<and> cost d = Some k \<and> prefix c (pair t)
    \<longrightarrow> get_real_amount X t ord = Inr (fsub (order_amount ord) k)"
    by (simp add: get_real_amount_def base_currency_cost_def)
  have v: "fsub 10 (fl (1 / 100)) = fl (999 / 100)"
    by code_simp
  have b: "get_real_amount X sample_trade fee_order = Inr (fl (999 / 100))"
    by (simp add: get_real_amount_def base_currency_cost_def sample_trade_def fee_order_def v)
  show ?thesis using a b by (rule conjI)
qed

theorem real_amount_from_order_fee_witness:
  "fee_open sample_trade \<noteq> 0 \<and> order_status fee_order \<noteq> ''open''
   \<and> order_fee fee_order = Some \<lparr>currency = Some ''ETH'', cost = Some (fl (1 / 100))\<rparr>
   \<and> prefix ''ETH'' (pair sample_trade) \<and> order_amount fee_order = 10
   \<and> get_real_amount sample_exchange sample_trade fee_order = Inr (fsub 10 (fl (1 / 100)))"
proof -
  have h: "fee_open sample_trade \<noteq> 0 \<and> order_status fee_order \<noteq> ''open''
   \<and> order_fee fee_order = Some \<lparr>currency = Some ''ETH'', cost = Some (fl (1 / 100))\<rparr>
   \<and> prefix ''ETH'' (pair sample_trade) \<and> order_amount fee_order = 10"
    by (simp add: sample_trade_def fee_order_def)
  then show ?thesis
    using real_amount_from_order_fee [of sample_trade fee_order
        "\<lparr>currency = Some ''ETH'', cost = Some (fl (1 / 100))\<rparr>" "''ETH''" "fl (1 / 100)"
        sample_exchange]
    by simp
qed










section \<open>freqtradebot.py: timed-out buy orders\<close>

text \<open>
  The calls that the bot makes to the exchange, to \<^verbatim>\<open>Analyze.get_signal\<close> and to the
  messenger (\<^verbatim>\<open>rpc.send_msg\<close>), in the order in which it makes them. The text of the
  selling notification is left out: \<open>SendSellMsg\<close> carries its pair and limit.
\<close>

datatype call =
  GetTicker string
  | GetSignal string
  | GetFee string
  | GetOrderBook string int
  | Sell string rat rat
  | CancelOrder "string option" string
  | SendMsg string
  | SendSellMsg string rat

text \<open>The rows of \<^verbatim>\<open>Trade.session\<close> by their id, and the calls made so far. A trade object
  is the row of its id: to change the object is to change the row.\<close>

record world =
  session :: "nat \<rightharpoonup> trade"
  calls :: "call list"

text \<open>\<^verbatim>\<open>trade.pair.replace('_', '/')\<close>.\<close>

definition pair_s :: "trade \<Rightarrow> string" where
  "pair_s t = map (\<lambda>c. if c = CHR ''_'' then CHR ''/'' else c) (pair t)"

text \<open>\<^verbatim>\<open>FreqtradeBot.handle_timedout_limit_buy\<close>.\<close>

definition handle_timedout_limit_buy :: "trade \<Rightarrow> order \<Rightarrow> world \<Rightarrow> bool \<times> world" where
  "handle_timedout_limit_buy t ord w =
     (let w1 = w\<lparr>calls := calls w @ [CancelOrder (open_order_id t) (pair t)]\<rparr>
      in if order_remaining ord = order_amount ord then
           (True, w1\<lparr>session := (session w1)(trade_id t := None),
                     calls := calls w1 @
                       [SendMsg (''*Timeout:* Unfilled buy order for '' @ pair_s t @ '' cancelled'')]\<rparr>)
         else
           (let t1 = t\<lparr>amount := fsub (order_amount ord) (order_remaining ord)\<rparr>;
                t2 = t1\<lparr>stake_amount := fmul (amount t1) (open_rate t1)\<rparr>;
                t3 = t2\<lparr>open_order_id := None\<rparr>
            in (False, w1\<lparr>session := (session w1)(trade_id t \<mapsto> t3),
                          calls := calls w1 @
                            [SendMsg (''*Timeout:* Remaining buy order for '' @ pair_s t @ '' cancelled'')]\<rparr>)))"

text \<open>
  C7. A timed-out buy order is cancelled in both cases. When nothing was filled (the
  remaining amount is the requested one) the trade's row is deleted and the handler returns
  true. When the fill is partial the handler returns false and the trade's row holds the
  filled amount (the float difference of the requested and the remaining amount), that
  amount times the open rate as its stake, no open order, and the \<^verbatim>\<open>is_open\<close> flag it had
  (true stays true); its other columns are unchanged.
\<close>

theorem buy_timeout_deletes_or_shrinks:
  "(order_remaining ord = order_amount ord \<longrightarrow>
      fst (handle_timedout_limit_buy t ord w) = True
      \<and> session (snd (handle_timedout_limit_buy t ord w)) (trade_id t) = None
      \<and> CancelOrder (open_order_id t) (pair t)
           \<in> set (calls (snd (handle_timedout_limit_buy t ord w))))
   \<and> (order_remaining ord < order_amount ord \<longrightarrow>
      fst (handle_timedout_limit_buy t ord w) = False
      \<and> session (snd (handle_timedout_limit_buy t ord w)) (trade_id t) =
          Some (t\<lparr>amount := fsub (order_amount ord) (order_remaining ord),
                  stake_amount := fmul (fsub (order_amount ord) (order_remaining ord)) (open_rate t),
                  open_order_id := None\<rparr>)
      \<and> is_open (the (session (snd (handle_timedout_limit_buy t ord w)) (trade_id t))) = is_open t
      \<and> CancelOrder (open_order_id t) (pair t)
           \<in> set (calls (snd (handle_timedout_limit_buy t ord w))))"
  by (simp add: handle_timedout_limit_buy_def Let_def)

text \<open>A world that holds the sample trade with an open buy order, and two timed-out orders:
  nothing filled, and 4 of 10 units filled.\<close>

definition pending_trade :: trade where
  "pending_trade = sample_trade\<lparr>open_order_id := Some ''buy-7''\<rparr>"

definition pending_world :: world where
  "pending_world = \<lparr>session = [1 \<mapsto> pending_trade], calls = []\<rparr>"

definition unfilled_order :: order where
  "unfilled_order =
     \<lparr>order_status = ''open'', order_side = ''buy'', order_amount = 10, order_remaining = 10,
      order_fee = None\<rparr>"

definition partial_order :: order where
  "partial_order = unfilled_order\<lparr>order_remaining := 6\<rparr>"

theorem buy_timeout_deletes_or_shrinks_witness:
  "order_remaining unfilled_order = order_amount unfilled_order
   \<and> order_remaining partial_order < order_amount partial_order
   \<and> is_open pending_trade
   \<and> handle_timedout_limit_buy pending_trade unfilled_order pending_world =
       (True, \<lparr>session = Map.empty,
               calls = [CancelOrder (Some ''buy-7'') ''ETH/BTC'',
                        SendMsg ''*Timeout:* Unfilled buy order for ETH/BTC cancelled'']\<rparr>)
   \<and> fst (handle_timedout_limit_buy pending_trade partial_order pending_world) = False
   \<and> session (snd (handle_timedout_limit_buy pending_trade partial_order pending_world)) 1 =
       Some (sample_trade\<lparr>amount := 4, stake_amount := 400\<rparr>)"
proof -
  have a: "order_remaining unfilled_order = order_amount unfilled_order"
    by (simp add: unfilled_order_def)
  have b: "order_remaining partial_order < order_amount partial_order"
    by (simp add: unfilled_order_def partial_order_def)
  have c: "is_open pending_trade"
    by (simp add: pending_trade_def sample_trade_def)
  have d: "handle_timedout_limit_buy pending_trade unfilled_order pending_world =
       (True, \<lparr>session = Map.empty,
               calls = [CancelOrder (Some ''buy-7'') ''ETH/BTC'',
                        SendMsg ''*Timeout:* Unfilled buy order for ETH/BTC cancelled'']\<rparr>)"
    by (simp add: handle_timedout_limit_buy_def unfilled_order_def pending_world_def
        pending_trade_def sample_trade_def pair_s_def Let_def)
  have v1: "fsub 10 6 = 4"
    by code_simp
  have v2: "fmul 4 100 = 400"
    by code_simp
  have e: "fst (handle_timedout_limit_buy pending_trade partial_order pending_world) = False
     \<and> session (snd (handle_timedout_limit_buy pending_trade partial_order pending_world)) 1 =
       Some (sample_trade\<lparr>amount := 4, stake_amount := 400\<rparr>)"
    using b buy_timeout_deletes_or_shrinks [of partial_order pending_trade pending_world]
    by (simp add: unfilled_order_def partial_order_def pending_trade_def sample_trade_def v1 v2)
  show ?thesis using a b c d e by simp
qed


section \<open>freqtradebot.py: the sell path\<close>

text \<open>
  The sell path works on one trade object and makes calls; its functions take the trade
  and the calls made so far and return both. The clock (\<^verbatim>\<open>datetime.utcnow()\<close>) is read as
  the same time \<open>now\<close> throughout one call of \<^verbatim>\<open>handle_trade\<close>.
\<close>

text \<open>The loop of \<^verbatim>\<open>Analyze.get_roi_rate\<close>: the threshold of the first entry whose
  duration has passed.\<close>

fun roi_rate_loop :: "rat \<Rightarrow> (rat \<times> rat) list \<Rightarrow> rat option" where
  "roi_rate_loop time_diff [] = None"
| "roi_rate_loop time_diff ((duration, threshold) # rest) =
     (if time_diff > duration then Some threshold else roi_rate_loop time_diff rest)"

text \<open>\<^verbatim>\<open>Analyze.get_roi_rate\<close>; the fee is asked for only when an entry is found, and
  \<open>fl (21 / 10)\<close> is the float literal \<^verbatim>\<open>2.1\<close>.\<close>

definition get_roi_rate ::
  "exchange \<Rightarrow> strategy \<Rightarrow> rat \<Rightarrow> trade \<Rightarrow> rat \<Rightarrow> call list \<Rightarrow> rat \<times> call list" where
  "get_roi_rate X S now t sell_rate cs =
     (let time_diff = fdiv (fsub now (open_date t)) 60
      in case roi_rate_loop time_diff (minimal_roi S) of
           Some threshold \<Rightarrow>
             (trunc_num
                (fmul (fmul (open_rate t) (fadd 1 threshold))
                   (fadd 1 (fmul (fl (21 / 10)) (get_fee X (pair t))))) 8,
              cs @ [GetFee (pair t)])
         | None \<Rightarrow> (sell_rate, cs))"

text \<open>\<^verbatim>\<open>FreqtradeBot.execute_sell\<close>: the sell order, the two columns it sets, the ticker it
  reads for the notification, and the notification.\<close>

definition execute_sell :: "exchange \<Rightarrow> trade \<Rightarrow> rat \<Rightarrow> call list \<Rightarrow> trade \<times> call list" where
  "execute_sell X t limit cs =
     (let order_id = exchange_sell X (pair t) limit (amount t);
          t1 = t\<lparr>open_order_id := Some order_id\<rparr>;
          t2 = t1\<lparr>close_rate_requested := Some limit\<rparr>
      in (t2, cs @ [Sell (pair t) limit (amount t), GetTicker (pair t), SendSellMsg (pair t) limit]))"

text \<open>\<^verbatim>\<open>FreqtradeBot.check_sell\<close>.\<close>

definition check_sell ::
  "persistence \<Rightarrow> exchange \<Rightarrow> config \<Rightarrow> strategy \<Rightarrow> rat \<Rightarrow> bool \<Rightarrow> bool \<Rightarrow>
     rat \<Rightarrow> trade \<Rightarrow> call list \<Rightarrow> bool \<times> trade \<times> call list" where
  "check_sell P X cfg S now buy sell sell_rate t cs =
     (case should_sell P cfg S t sell_rate now buy sell of
        (True, t') \<Rightarrow> (True, execute_sell X t' sell_rate cs)
      | (False, t') \<Rightarrow> (False, t', cs))"

text \<open>The loop of \<^verbatim>\<open>handle_trade\<close> over
  \<^verbatim>\<open>range(orderBook_min, orderBook_max + 1)\<close>; running out of levels is the \<^verbatim>\<open>return False\<close>
  at the end of \<^verbatim>\<open>handle_trade\<close>.\<close>

fun book_loop ::
  "persistence \<Rightarrow> exchange \<Rightarrow> config \<Rightarrow> strategy \<Rightarrow> rat \<Rightarrow> bool \<Rightarrow> bool \<Rightarrow>
     (rat \<times> rat) list \<Rightarrow> int list \<Rightarrow> rat \<Rightarrow> trade \<Rightarrow> call list \<Rightarrow>
     (error + bool) \<times> trade \<times> call list" where
  "book_loop P X cfg S now buy sell book [] sell_rate t cs = (Inr False, t, cs)"
| "book_loop P X cfg S now buy sell book (i # rest) sell_rate t cs =
     (case py_index book (i - 1) of
        Inl e \<Rightarrow> (Inl e, t, cs)
      | Inr level \<Rightarrow>
          (let orderBook_rate = fst level;
               sell_rate' = (if sell_rate < orderBook_rate then orderBook_rate else sell_rate)
           in case check_sell P X cfg S now buy sell sell_rate' t cs of
                (True, t', cs') \<Rightarrow> (Inr True, t', cs')
              | (False, t', cs') \<Rightarrow> book_loop P X cfg S now buy sell book rest sell_rate' t' cs'))"

text \<open>The rate with which \<^verbatim>\<open>handle_trade\<close> enters the sell checks: the ticker's bid, or
  what \<^verbatim>\<open>get_roi_rate\<close> makes of it when \<^verbatim>\<open>sell_fullfilled_at_roi\<close> is set.\<close>

definition start_rate ::
  "exchange \<Rightarrow> config \<Rightarrow> strategy \<Rightarrow> rat \<Rightarrow> trade \<Rightarrow> call list \<Rightarrow> rat \<times> call list" where
  "start_rate X cfg S now t cs =
     (let sell_rate = ticker_bid (get_ticker X (pair t));
          cs1 = cs @ [GetTicker (pair t)];
          cs2 = (if use_sell_signal cfg then cs1 @ [GetSignal (pair t)] else cs1)
      in if sell_fullfilled_at_roi cfg then get_roi_rate X S now t sell_rate cs2
         else (sell_rate, cs2))"

text \<open>\<^verbatim>\<open>FreqtradeBot.handle_trade\<close>.\<close>

definition handle_trade ::
  "persistence \<Rightarrow> exchange \<Rightarrow> config \<Rightarrow> strategy \<Rightarrow> rat \<Rightarrow> trade \<Rightarrow> call list \<Rightarrow>
     (error + bool) \<times> trade \<times> call list" where
  "handle_trade P X cfg S now t cs =
     (if \<not> is_open t then (Inl ValueError, t, cs)
      else
        (let signals = (if use_sell_signal cfg then get_signal X (pair t) else (False, False));
             buy = fst signals;
             sell = snd signals;
             sell_rate = fst (start_rate X cfg S now t cs);
             cs3 = snd (start_rate X cfg S now t cs);
             checked = (case check_sell P X cfg S now buy sell sell_rate t cs3 of
                          (b, t', cs') \<Rightarrow> (Inr b, t', cs'))
         in case ask_strategy cfg of
              None \<Rightarrow> checked
            | Some a \<Rightarrow>
                if ask_use_book_order a then
                  (let orderBook_min = book_order_min a;
                       orderBook_max = book_order_max a;
                       orderBook = get_order_book X (pair t) orderBook_max
                   in book_loop P X cfg S now buy sell (asks orderBook)
                        [orderBook_min..orderBook_max] sell_rate t
                        (cs3 @ [GetOrderBook (pair t) orderBook_max]))
                else checked))"

lemma py_index_error:
  assumes "py_index xs i = Inl e"
  shows "e = IndexError"
  using assms by (simp add: py_index_def Let_def split: if_splits)

lemma book_loop_error:
  assumes "fst (book_loop P X cfg S now buy sell book levels sell_rate t cs) = Inl e"
  shows "e = IndexError"
  using assms
proof (induction levels arbitrary: sell_rate t cs)
  case Nil
  then show ?case by simp
next
  case (Cons i rest)
  show ?case
  proof (cases "py_index book (i - 1)")
    case (Inl e')
    with Cons.prems py_index_error [OF Inl] show ?thesis by simp
  next
    case (Inr level)
    let ?r = "if sell_rate < fst level then fst level else sell_rate"
    obtain b t' cs' where c: "check_sell P X cfg S now buy sell ?r t cs = (b, t', cs')"
      by (cases "check_sell P X cfg S now buy sell ?r t cs") auto
    show ?thesis
    proof (cases b)
      case True
      with Cons.prems Inr c show ?thesis by (simp add: Let_def)
    next
      case False
      with Cons.prems Inr c
      have "fst (book_loop P X cfg S now buy sell book rest ?r t' cs') = Inl e"
        by (simp add: Let_def)
      then show ?thesis by (rule Cons.IH)
    qed
  qed
qed

text \<open>
  C8. On a trade that is not open \<^verbatim>\<open>handle_trade\<close> raises \<^verbatim>\<open>ValueError\<close> with the trade
  and the list of calls as they were: nothing was asked of the exchange and nothing was
  written. \<^verbatim>\<open>ValueError\<close> is raised on no open trade.
\<close>

theorem closed_trade_is_refused:
  "(\<not> is_open t \<longrightarrow> handle_trade P X cfg S now t cs = (Inl ValueError, t, cs))
   \<and> (fst (handle_trade P X cfg S now t cs) = Inl ValueError \<longleftrightarrow> \<not> is_open t)"
proof -
  have a: "\<not> is_open t \<longrightarrow> handle_trade P X cfg S now t cs = (Inl ValueError, t, cs)"
    by (simp add: handle_trade_def)
  have b: "fst (handle_trade P X cfg S now t cs) \<noteq> Inl ValueError" if "is_open t"
  proof
    assume v: "fst (handle_trade P X cfg S now t cs) = Inl ValueError"
    let ?buy = "fst (if use_sell_signal cfg then get_signal X (pair t) else (False, False))"
    let ?sell = "snd (if use_sell_signal cfg then get_signal X (pair t) else (False, False))"
    let ?rate = "fst (start_rate X cfg S now t cs)"
    let ?cs = "snd (start_rate X cfg S now t cs)"
    have checked: "fst (case check_sell P X cfg S now ?buy ?sell ?rate t ?cs of
        (b, t', cs') \<Rightarrow> (Inr b :: error + bool, t', cs')) \<noteq> Inl ValueError"
      by (simp split: prod.splits)
    show False
    proof (cases "ask_strategy cfg")
      case None
      with v that checked show False by (simp add: handle_trade_def Let_def)
    next
      case (Some a)
      show False
      proof (cases "ask_use_book_order a")
        case False
        with v that checked Some show False by (simp add: handle_trade_def Let_def)
      next
        case True
        with v that Some
        have "fst (book_loop P X cfg S now ?buy ?sell
            (asks (get_order_book X (pair t) (book_order_max a)))
            [book_order_min a..book_order_max a] ?rate t
            (?cs @ [GetOrderBook (pair t) (book_order_max a)])) = Inl ValueError"
          by (simp add: handle_trade_def Let_def)
        from book_loop_error [OF this] show False by simp
      qed
    qed
  qed
  show ?thesis using a b by (auto simp: handle_trade_def)
qed

theorem closed_trade_is_refused_witness:
  "\<not> is_open closed_trade
   \<and> handle_trade sample_persistence sample_exchange sample_config sample_strategy 2700
        closed_trade [] = (Inl ValueError, closed_trade, [])
   \<and> is_open sample_trade
   \<and> fst (handle_trade sample_persistence sample_exchange sample_config sample_strategy 2700
        sample_trade []) = Inr False"
proof -
  have a: "\<not> is_open closed_trade" by (simp add: closed_trade_def sample_trade_def)
  have b: "is_open sample_trade" by (simp add: sample_trade_def)
  have c: "fst (handle_trade sample_persistence sample_exchange sample_config sample_strategy 2700
        sample_trade []) = Inr False"
    by code_simp
  show ?thesis
    using a b c closed_trade_is_refused [of closed_trade sample_persistence sample_exchange
        sample_config sample_strategy 2700 "[]"]
    by simp
qed


section \<open>The order-book scan of the sell path\<close>

text \<open>The prices of the levels that the loop reads for the indices of its range, up to the
  first index that the book does not have.\<close>

fun level_prices :: "(rat \<times> rat) list \<Rightarrow> int list \<Rightarrow> rat list" where
  "level_prices book [] = []"
| "level_prices book (i # rest) =
     (case py_index book (i - 1) of
        Inl e \<Rightarrow> []
      | Inr level \<Rightarrow> fst level # level_prices book rest)"

text \<open>In the words of C10: the candidate rate at the \<open>k\<close>-th scanned level is the maximum of
  the starting rate and the prices of the levels scanned so far.\<close>

definition candidate_rates :: "rat \<Rightarrow> rat list \<Rightarrow> rat list" where
  "candidate_rates start prices =
     map (\<lambda>k. Max (set (start # take (Suc k) prices))) [0..<length prices]"

text \<open>The sell decision evaluated at each rate of a list in turn, until one sells.\<close>

fun first_sell ::
  "persistence \<Rightarrow> exchange \<Rightarrow> config \<Rightarrow> strategy \<Rightarrow> rat \<Rightarrow> bool \<Rightarrow> bool \<Rightarrow>
     rat list \<Rightarrow> trade \<Rightarrow> call list \<Rightarrow> bool \<times> trade \<times> call list" where
  "first_sell P X cfg S now buy sell [] t cs = (False, t, cs)"
| "first_sell P X cfg S now buy sell (r # rs) t cs =
     (case check_sell P X cfg S now buy sell r t cs of
        (True, t', cs') \<Rightarrow> (True, t', cs')
      | (False, t', cs') \<Rightarrow> first_sell P X cfg S now buy sell rs t' cs')"

lemma Max_two_heads: "Max (set (s # p # xs)) = Max (set (max s p # xs))"
proof (cases xs)
  case Nil
  then show ?thesis by simp
next
  case (Cons x xs')
  then show ?thesis by (simp add: max.assoc)
qed

lemma candidate_rates_Cons:
  "candidate_rates s (p # ps) =
     (if s < p then p else s) # candidate_rates (if s < p then p else s) ps"
proof -
  have m: "(if s < p then p else s) = max s p" by (simp add: max_def)
  show ?thesis
    unfolding m candidate_rates_def
    by (simp only: length_Cons map_upt_Suc take_Suc_Cons Max_two_heads take_0)
      (simp add: max.commute)
qed

lemma candidate_rates_lower: "c \<in> set (candidate_rates s ps) \<Longrightarrow> s \<le> c"
  by (auto simp: candidate_rates_def)

lemma candidate_rates_sorted: "sorted (candidate_rates s ps)"
proof (induction ps arbitrary: s)
  case Nil
  then show ?case by (simp add: candidate_rates_def)
next
  case (Cons p ps)
  show ?case
    unfolding candidate_rates_Cons
    using Cons.IH candidate_rates_lower by auto
qed

lemma book_loop_scan:
  "book_loop P X cfg S now buy sell book levels start t cs =
     (case first_sell P X cfg S now buy sell (candidate_rates start (level_prices book levels)) t cs of
        (True, t', cs') \<Rightarrow> (Inr True, t', cs')
      | (False, t', cs') \<Rightarrow>
          (if length (level_prices book levels) = length levels then Inr False else Inl IndexError,
           t', cs'))"
proof (induction levels arbitrary: start t cs)
  case Nil
  then show ?case by (simp add: candidate_rates_def)
next
  case (Cons i rest)
  show ?case
  proof (cases "py_index book (i - 1)")
    case (Inl e)
    with py_index_error [OF Inl] show ?thesis by (simp add: candidate_rates_def)
  next
    case (Inr level)
    let ?r = "if start < fst level then fst level else start"
    obtain b t' cs' where c: "check_sell P X cfg S now buy sell ?r t cs = (b, t', cs')"
      by (cases "check_sell P X cfg S now buy sell ?r t cs") auto
    show ?thesis
    proof (cases b)
      case True
      with Inr c show ?thesis by (simp add: candidate_rates_Cons Let_def)
    next
      case False
      with Inr c Cons.IH [of ?r t' cs'] show ?thesis
        by (simp add: candidate_rates_Cons Let_def)
    qed
  qed
qed


text \<open>The order book of the spec's example (asks 100 and 101, ticker bid 99, levels 1 to
  2), the same with \<^verbatim>\<open>sell_fullfilled_at_roi\<close> set, and strategies that ask for a profit of
  half a percent and of a fifth.\<close>

definition book_config :: config where
  "book_config = sample_config\<lparr>ask_strategy :=
     Some \<lparr>ask_use_book_order = True, book_order_min = 1, book_order_max = 2\<rparr>\<rparr>"

definition roi_book_config :: config where
  "roi_book_config = book_config\<lparr>sell_fullfilled_at_roi := True\<rparr>"

definition book_exchange :: exchange where
  "book_exchange = sample_exchange\<lparr>
     get_ticker := (\<lambda>p. \<lparr>ticker_ask = 100, ticker_bid = 99, ticker_last = 100\<rparr>),
     get_order_book := (\<lambda>p depth. \<lparr>bids = [(99, 1)], asks = [(100, 1), (101, 1)]\<rparr>)\<rparr>"

definition half_percent_strategy :: strategy where
  "half_percent_strategy = \<lparr>stoploss = Some (- 1 / 10), minimal_roi = [(0, 1 / 200)]\<rparr>"

definition fifth_strategy :: strategy where
  "fifth_strategy = \<lparr>stoploss = Some (- 1 / 10), minimal_roi = [(0, fl (1 / 5))]\<rparr>"

text \<open>
  C10, as stated, fails when \<^verbatim>\<open>sell_fullfilled_at_roi\<close> is set: the scan then starts from
  the rate of \<^verbatim>\<open>get_roi_rate\<close>, not from the ticker's bid. Here the bid is 99 and the asks
  are 100 and 101, so the maxima of the bid and the asks are 100 and 101, and at neither
  of them the sell decision fires (the strategy asks for a profit of a fifth on the open
  rate 100). The ROI rate is the float 120.252, the decision is evaluated there at the
  first level, and the trade is sold at that rate.
\<close>

theorem roi_rate_replaces_ticker_bid:
  "ticker_bid (get_ticker book_exchange (pair sample_trade)) = 99
   \<and> level_prices (asks (get_order_book book_exchange (pair sample_trade) 2)) [1..2] = [100, 101]
   \<and> candidate_rates 99 [100, 101] = [100, 101]
   \<and> first_sell sample_persistence book_exchange roi_book_config fifth_strategy 2700 False False
        [100, 101] sample_trade [] =
       (False, sample_trade\<lparr>stop_loss := Some 90, initial_stop_loss := Some 90\<rparr>, [])
   \<and> handle_trade sample_persistence book_exchange roi_book_config fifth_strategy 2700
        sample_trade [] =
       (Inr True,
        sample_trade\<lparr>stop_loss := Some 90, initial_stop_loss := Some 90,
          open_order_id := Some ''order-1'',
          close_rate_requested := Some (fl (120252 / 1000))\<rparr>,
        [GetTicker ''ETH/BTC'', GetFee ''ETH/BTC'', GetOrderBook ''ETH/BTC'' 2,
         Sell ''ETH/BTC'' (fl (120252 / 1000)) 10, GetTicker ''ETH/BTC'',
         SendSellMsg ''ETH/BTC'' (fl (120252 / 1000))])"
  by code_simp

text \<open>
  C10, amended. With the order book enabled, \<^verbatim>\<open>handle_trade\<close> on an open trade evaluates the
  sell decision at the candidate rates in turn and stops at the first that sells (it is
  \<^verbatim>\<open>IndexError\<close> if the book runs out of levels before that). The candidate at the
  \<open>k\<close>-th scanned level is the maximum of the starting rate and the prices of the ask
  levels from the configured minimum index up to that level; the candidates never
  decrease and none is below the starting rate. The starting rate is the ticker's bid
  unless \<^verbatim>\<open>sell_fullfilled_at_roi\<close> is set, in which case it is what \<^verbatim>\<open>get_roi_rate\<close>
  returns for the bid.
\<close>

theorem book_scan_candidates:
  assumes "is_open t" and "ask_strategy cfg = Some a" and "ask_use_book_order a"
    and "signals = (if use_sell_signal cfg then get_signal X (pair t) else (False, False))"
    and "start = fst (start_rate X cfg S now t cs)"
    and "cs3 = snd (start_rate X cfg S now t cs) @ [GetOrderBook (pair t) (book_order_max a)]"
    and "prices = level_prices (asks (get_order_book X (pair t) (book_order_max a)))
                    [book_order_min a..book_order_max a]"
    and "rates = candidate_rates start prices"
  shows "handle_trade P X cfg S now t cs =
           (case first_sell P X cfg S now (fst signals) (snd signals) rates t cs3 of
              (True, t', cs') \<Rightarrow> (Inr True, t', cs')
            | (False, t', cs') \<Rightarrow>
                (if length prices = length [book_order_min a..book_order_max a]
                 then Inr False else Inl IndexError, t', cs'))
         \<and> sorted rates
         \<and> (\<forall>c \<in> set rates. start \<le> c)
         \<and> length rates = length prices
         \<and> (\<forall>k < length prices. rates ! k = Max (set (start # take (Suc k) prices)))
         \<and> (\<not> sell_fullfilled_at_roi cfg \<longrightarrow> start = ticker_bid (get_ticker X (pair t)))"
proof -
  have h: "handle_trade P X cfg S now t cs =
      book_loop P X cfg S now (fst signals) (snd signals)
        (asks (get_order_book X (pair t) (book_order_max a)))
        [book_order_min a..book_order_max a] start t cs3"
    using assms(1-6) by (simp add: handle_trade_def Let_def)
  have a1: "handle_trade P X cfg S now t cs =
           (case first_sell P X cfg S now (fst signals) (snd signals) rates t cs3 of
              (True, t', cs') \<Rightarrow> (Inr True, t', cs')
            | (False, t', cs') \<Rightarrow>
                (if length prices = length [book_order_min a..book_order_max a]
                 then Inr False else Inl IndexError, t', cs'))"
    unfolding h assms(7,8) by (rule book_loop_scan)
  have a2: "sorted rates" unfolding assms(8) by (rule candidate_rates_sorted)
  have a3: "\<forall>c \<in> set rates. start \<le> c"
    unfolding assms(8) using candidate_rates_lower by blast
  have a4: "length rates = length prices" unfolding assms(8) by (simp add: candidate_rates_def)
  have a5: "\<forall>k < length prices. rates ! k = Max (set (start # take (Suc k) prices))"
    unfolding assms(8) by (simp add: candidate_rates_def)
  have a6: "\<not> sell_fullfilled_at_roi cfg \<longrightarrow> start = ticker_bid (get_ticker X (pair t))"
    unfolding assms(5) by (simp add: start_rate_def Let_def)
  show ?thesis using a1 a2 a3 a4 a5 a6 by blast
qed


theorem book_scan_candidates_witness:
  "is_open sample_trade
   \<and> ask_strategy book_config
       = Some \<lparr>ask_use_book_order = True, book_order_min = 1, book_order_max = 2\<rparr>
   \<and> \<not> sell_fullfilled_at_roi book_config
   \<and> candidate_rates 99 [100, 101] = [100, 101]
   \<and> handle_trade sample_persistence book_exchange book_config half_percent_strategy 2700
        sample_trade [] =
       (Inr True,
        sample_trade\<lparr>stop_loss := Some 90, initial_stop_loss := Some 90,
          open_order_id := Some ''order-1'', close_rate_requested := Some 101\<rparr>,
        [GetTicker ''ETH/BTC'', GetOrderBook ''ETH/BTC'' 2, Sell ''ETH/BTC'' 101 10,
         GetTicker ''ETH/BTC'', SendSellMsg ''ETH/BTC'' 101])"
proof -
  let ?a = "\<lparr>ask_use_book_order = True, book_order_min = 1, book_order_max = 2\<rparr>"
  have a: "is_open sample_trade" by code_simp
  have b: "ask_strategy book_config = Some ?a" by code_simp
  have c: "ask_use_book_order ?a" by simp
  have d: "\<not> sell_fullfilled_at_roi book_config" by code_simp
  have s: "(False, False) =
      (if use_sell_signal book_config then get_signal book_exchange (pair sample_trade)
       else (False, False))" by code_simp
  have st: "99 = fst (start_rate book_exchange book_config half_percent_strategy 2700
      sample_trade [])" by code_simp
  have cs: "[GetTicker ''ETH/BTC'', GetOrderBook ''ETH/BTC'' 2] =
      snd (start_rate book_exchange book_config half_percent_strategy 2700 sample_trade [])
        @ [GetOrderBook (pair sample_trade) (book_order_max ?a)]" by code_simp
  have pr: "[100, 101] = level_prices
      (asks (get_order_book book_exchange (pair sample_trade) (book_order_max ?a)))
      [book_order_min ?a..book_order_max ?a]" by code_simp
  have ra: "candidate_rates 99 [100, 101] = [100, 101]" by code_simp
  have fs: "first_sell sample_persistence book_exchange book_config half_percent_strategy 2700
      False False [100, 101] sample_trade [GetTicker ''ETH/BTC'', GetOrderBook ''ETH/BTC'' 2] =
       (True,
        sample_trade\<lparr>stop_loss := Some 90, initial_stop_loss := Some 90,
          open_order_id := Some ''order-1'', close_rate_requested := Some 101\<rparr>,
        [GetTicker ''ETH/BTC'', GetOrderBook ''ETH/BTC'' 2, Sell ''ETH/BTC'' 101 10,
         GetTicker ''ETH/BTC'', SendSellMsg ''ETH/BTC'' 101])" by code_simp
  show ?thesis
    using a b d ra fs
      book_scan_candidates [OF a b c s st cs pr ra [symmetric], of sample_persistence]
    by simp
qed


end
